theory Spec2Isabelle
  imports Complex_Main
begin

section \<open>Forward modelling for point masses (harmonica/forward/point\_mass.py)\<close>

text \<open>
  The module computes the gravitational potential and the radial acceleration that a
  single point mass generates on a set of computation points given in spherical
  geocentric coordinates.

  Numbers: the source computes in NumPy \<open>float64\<close>. The embedding takes the
  arithmetic over the real numbers: \<open>+\<close>, \<open>-\<close>, \<open>*\<close>, \<open>np.sqrt\<close>, \<open>np.cos\<close>,
  \<open>np.sin\<close> and \<open>**\<close> are the real operations, so rounding and overflow are not part
  of this model; the last subsection of the definitions transcribes the potential kernel
  once more with every operation rounded to \<open>float64\<close>. The \<open>dtype\<close> argument of
  \<open>point_mass_gravity\<close> only selects the storage format of the result and has no
  counterpart over the reals; it is left out.

  The three functions below \<open>point_mass_gravity\<close> are compiled by
  \<open>@jit(nopython=True)\<close> with numba's defaults, which fixes two behaviours that the
  Python text alone does not show: a division by zero raises \<open>ZeroDivisionError\<close>,
  and an array read is not bounds-checked.
\<close>

subsection \<open>Errors\<close>

text \<open>
  \<open>ValueError msg\<close> is the exception raised by \<open>point_mass_gravity\<close> itself (line 43),
  with its message. \<open>BroadcastError\<close> is the error of \<open>np.broadcast\<close> on shapes that
  cannot be broadcast, \<open>UnpackError\<close> the error of a tuple assignment whose right-hand
  side has the wrong number of entries, and \<open>ZeroDivisionError\<close> the error of a
  division by zero in compiled code.
\<close>

datatype error = ValueError string | BroadcastError | UnpackError | ZeroDivisionError

subsection \<open>Arrays\<close>

text \<open>
  An \<open>ndarray\<close> is its shape and its elements in row-major order; an array that NumPy
  builds has as many elements as the product of its shape.
\<close>

record ndarray =
  shape :: "nat list"
  data :: "real list"

definition ravel :: "ndarray \<Rightarrow> real list" where
  "ravel a = data a"

text \<open>
  NumPy's broadcasting rule on two shapes, read from the last axis backwards: two
  extents are compatible when they are equal or one of them is 1, and a missing
  leading axis counts as 1. \<open>broadcast_dims\<close> works on the reversed shapes.
\<close>

fun broadcast_dims :: "nat list \<Rightarrow> nat list \<Rightarrow> nat list option" where
  "broadcast_dims [] ys = Some ys"
| "broadcast_dims (x # xs) [] = Some (x # xs)"
| "broadcast_dims (x # xs) (y # ys) =
     (if x = y \<or> y = 1 then map_option ((#) x) (broadcast_dims xs ys)
      else if x = 1 then map_option ((#) y) (broadcast_dims xs ys)
      else None)"

definition broadcast_shapes :: "nat list \<Rightarrow> nat list \<Rightarrow> nat list option" where
  "broadcast_shapes s t = map_option rev (broadcast_dims (rev s) (rev t))"

text \<open>\<open>np.broadcast(*arrays)\<close>: the common shape of all the arrays, or an error.\<close>

fun np_broadcast_from :: "nat list \<Rightarrow> ndarray list \<Rightarrow> error + nat list" where
  "np_broadcast_from s [] = Inr s"
| "np_broadcast_from s (a # as) =
     (case broadcast_shapes s (shape a) of
        None \<Rightarrow> Inl BroadcastError
      | Some s' \<Rightarrow> np_broadcast_from s' as)"

definition np_broadcast :: "ndarray list \<Rightarrow> error + nat list" where
  "np_broadcast arrays = np_broadcast_from [] arrays"

text \<open>
  An array read \<open>xs[l]\<close> in compiled code, with a non-negative index. The read is not
  bounds-checked: past the end of the array it raises nothing and returns whatever the
  memory behind the array holds. \<open>past l\<close> stands for that content.
\<close>

definition getitem :: "(nat \<Rightarrow> real) \<Rightarrow> real list \<Rightarrow> nat \<Rightarrow> real" where
  "getitem past xs l = (if l < length xs then xs ! l else past l)"

text \<open>
  The memory behind the four arrays that the loop reads: \<open>beyond k l\<close> is what a read
  at index \<open>l\<close> finds past the end of the array number \<open>k\<close> (0 for
  \<open>longitude_radians\<close>, 1 for \<open>cosphi\<close>, 2 for \<open>sinphi\<close>, 3 for \<open>radius\<close>).
\<close>

type_synonym memory = "nat \<Rightarrow> nat \<Rightarrow> real"

text \<open>A memory that holds \<open>0.0\<close> everywhere, for evaluating concrete calls.\<close>

definition zero_memory :: memory where
  "zero_memory k l = 0"

subsection \<open>Coordinate preparation\<close>

text \<open>\<open>np.radians\<close>: degrees to radians.\<close>

definition radians :: "real \<Rightarrow> real" where
  "radians d = d * pi / 180"

subsection \<open>Kernels\<close>

text \<open>The division \<open>a / b\<close> of two floats in compiled code.\<close>

definition truediv :: "real \<Rightarrow> real \<Rightarrow> error + real" where
  "truediv a b = (if b = 0 then Inl ZeroDivisionError else Inr (a / b))"

text \<open>
  Both kernels take, in this order: \<open>longitude\<close> (radians), \<open>cosphi\<close>, \<open>sinphi\<close>,
  \<open>radius\<close> of the computation point, then \<open>longitude_p\<close> (radians), \<open>cosphi_p\<close>,
  \<open>sinphi_p\<close>, \<open>radius_p\<close>, \<open>radius_p_sq\<close> of the point mass. On the arguments that
  the loop prepares from in-range reads \<open>distance_sq\<close> is never negative; a negative
  \<open>distance_sq\<close> can only come from values read past the end of an array, and there
  \<open>sqrt\<close> and \<open>powr\<close> are the total real functions where \<open>float64\<close> has NaN.
\<close>

type_synonym kernel =
  "real \<Rightarrow> real \<Rightarrow> real \<Rightarrow> real \<Rightarrow> real \<Rightarrow> real \<Rightarrow> real \<Rightarrow> real \<Rightarrow> real \<Rightarrow> error + real"

definition kernel_potential :: kernel where
  "kernel_potential longitude cosphi sinphi radius
       longitude_p cosphi_p sinphi_p radius_p radius_p_sq =
     (let coslambda = cos (longitude_p - longitude);
          cospsi = sinphi_p * sinphi + cosphi_p * cosphi * coslambda;
          distance_sq = radius ^ 2 + radius_p_sq - 2 * radius * radius_p * cospsi
      in truediv 1 (sqrt distance_sq))"

definition kernel_g_radial :: kernel where
  "kernel_g_radial longitude cosphi sinphi radius
       longitude_p cosphi_p sinphi_p radius_p radius_p_sq =
     (let coslambda = cos (longitude_p - longitude);
          cospsi = sinphi_p * sinphi + cosphi_p * cosphi * coslambda;
          distance_sq = radius ^ 2 + radius_p_sq - 2 * radius * radius_p * cospsi;
          delta_z = radius_p * cospsi - radius
      in truediv delta_z (distance_sq powr (3 / 2)))"

text \<open>
  The two intermediate quantities that both kernel bodies compute (lines 130--132 and
  148--150), as functions of the kernel's arguments.
\<close>

definition cospsi :: "real \<Rightarrow> real \<Rightarrow> real \<Rightarrow> real \<Rightarrow> real \<Rightarrow> real \<Rightarrow> real" where
  "cospsi longitude cosphi sinphi longitude_p cosphi_p sinphi_p =
     sinphi_p * sinphi + cosphi_p * cosphi * cos (longitude_p - longitude)"

definition distance_sq ::
  "real \<Rightarrow> real \<Rightarrow> real \<Rightarrow> real \<Rightarrow> real \<Rightarrow> real \<Rightarrow> real \<Rightarrow> real \<Rightarrow> real \<Rightarrow> real" where
  "distance_sq longitude cosphi sinphi radius
       longitude_p cosphi_p sinphi_p radius_p radius_p_sq =
     radius ^ 2 + radius_p_sq
       - 2 * radius * radius_p * cospsi longitude cosphi sinphi longitude_p cosphi_p sinphi_p"

subsection \<open>The accumulation loop\<close>

text \<open>
  \<open>jit_loop\<close> is the \<open>for l in range(out.size)\<close> loop of \<open>jit_point_mass_gravity\<close>
  over the indices still to visit (\<open>kernel_f\<close> is the argument \<open>kernel\<close> of the
  source). The buffer \<open>out\<close> is mutated in place in the source, so the model returns
  it together with the exception that stopped the loop, if any: an exception leaves
  the elements already written in the buffer.
\<close>

fun jit_loop ::
  "memory \<Rightarrow> kernel \<Rightarrow> real list \<Rightarrow> real list \<Rightarrow> real list \<Rightarrow> real list \<Rightarrow>
   real \<Rightarrow> real \<Rightarrow> real \<Rightarrow> real \<Rightarrow> real \<Rightarrow> nat list \<Rightarrow> real list \<Rightarrow> error option \<times> real list" where
  "jit_loop beyond kernel_f longitude_radians cosphi sinphi radius
       longitude_p cosphi_p sinphi_p radius_p radius_p_sq [] out = (None, out)"
| "jit_loop beyond kernel_f longitude_radians cosphi sinphi radius
       longitude_p cosphi_p sinphi_p radius_p radius_p_sq (l # ls) out =
     (case kernel_f (getitem (beyond 0) longitude_radians l) (getitem (beyond 1) cosphi l)
             (getitem (beyond 2) sinphi l) (getitem (beyond 3) radius l)
             longitude_p cosphi_p sinphi_p radius_p radius_p_sq of
        Inl e \<Rightarrow> (Some e, out)
      | Inr v \<Rightarrow>
          jit_loop beyond kernel_f longitude_radians cosphi sinphi radius
            longitude_p cosphi_p sinphi_p radius_p radius_p_sq ls
            (out[l := out ! l + v]))"

definition jit_point_mass_gravity ::
  "memory \<Rightarrow> real list \<Rightarrow> real list \<Rightarrow> real list \<Rightarrow> real list \<Rightarrow> kernel \<Rightarrow> real list \<Rightarrow>
   error option \<times> real list" where
  "jit_point_mass_gravity beyond longitude latitude radius point kernel_f out =
     (case point of
        [longitude_p0, latitude_p0, radius_p] \<Rightarrow>
          (let longitude_p = radians longitude_p0;
               latitude_p = radians latitude_p0;
               cosphi_p = cos latitude_p;
               sinphi_p = sin latitude_p;
               radius_p_sq = radius_p ^ 2;
               cosphi = map (\<lambda>x. cos (radians x)) latitude;
               sinphi = map (\<lambda>x. sin (radians x)) latitude;
               longitude_radians = map radians longitude
           in jit_loop beyond kernel_f longitude_radians cosphi sinphi radius
                longitude_p cosphi_p sinphi_p radius_p radius_p_sq [0..<length out] out)
      | _ \<Rightarrow> (Some UnpackError, out))"

text \<open>
  The kernel call of lines 105--115 for the computation point of index \<open>l\<close>, when
  \<open>l\<close> is within the three coordinate arrays, with the arguments as lines 96--103
  prepare them from the coordinates in degrees.
\<close>

definition kernel_call ::
  "kernel \<Rightarrow> real list \<Rightarrow> real list \<Rightarrow> real list \<Rightarrow> real \<Rightarrow> real \<Rightarrow> real \<Rightarrow> nat \<Rightarrow>
   error + real" where
  "kernel_call kernel_f longitude latitude radius longitude_p latitude_p radius_p l =
     kernel_f (radians (longitude ! l)) (cos (radians (latitude ! l)))
       (sin (radians (latitude ! l))) (radius ! l)
       (radians longitude_p) (cos (radians latitude_p)) (sin (radians latitude_p))
       radius_p (radius_p ^ 2)"

subsection \<open>The entry point\<close>

text \<open>The dictionary \<open>kernels\<close> of line 41.\<close>

definition kernels :: "string \<rightharpoonup> kernel" where
  "kernels = [''potential'' \<mapsto> kernel_potential, ''g_radial'' \<mapsto> kernel_g_radial]"

text \<open>
  Line 51 reads \<open>field in ("g_radial")\<close>. The parentheses do not build a tuple, so
  this is Python's substring test on two strings: \<open>str_in s t\<close> holds when \<open>s\<close>
  occurs in \<open>t\<close> as a contiguous block.
\<close>

fun str_prefix :: "string \<Rightarrow> string \<Rightarrow> bool" where
  "str_prefix [] t = True"
| "str_prefix (c # s) [] = False"
| "str_prefix (c # s) (d # t) = (c = d \<and> str_prefix s t)"

fun str_in :: "string \<Rightarrow> string \<Rightarrow> bool" where
  "str_in s [] = (s = [])"
| "str_in s (d # t) = (str_prefix s (d # t) \<or> str_in s t)"

text \<open>
  \<open>point_mass_gravity\<close>, lines 41--53. \<open>G\<close> is \<open>GRAVITATIONAL_CONST\<close>, imported from
  the module \<open>constants\<close>; it is a parameter here, and so is the memory \<open>beyond\<close>
  the arrays. \<open>coordinates\<close> is the list of coordinate arrays, \<open>point\<close> the list of
  the point mass's coordinates.
\<close>

definition point_mass_gravity ::
  "memory \<Rightarrow> real \<Rightarrow> ndarray list \<Rightarrow> real list \<Rightarrow> real \<Rightarrow> string \<Rightarrow> error + ndarray" where
  "point_mass_gravity beyond G coordinates point mass field =
     (case kernels field of
        None \<Rightarrow> Inl (ValueError (''Gravity field '' @ field @ '' not recognized''))
      | Some kernel_f \<Rightarrow>
          (case np_broadcast (take 3 coordinates) of
             Inl e \<Rightarrow> Inl e
           | Inr cast_shape \<Rightarrow>
               (let result = replicate (prod_list cast_shape) 0 in
                case map ravel (take 3 coordinates) of
                  [longitude, latitude, radius] \<Rightarrow>
                    (case jit_point_mass_gravity beyond longitude latitude radius point
                            kernel_f result of
                       (Some e, _) \<Rightarrow> Inl e
                     | (None, result1) \<Rightarrow>
                         (let result2 = map (\<lambda>x. x * (G * mass)) result1;
                              result3 = (if str_in field ''g_radial''
                                         then map (\<lambda>x. x * 100000) result2 else result2)
                          in Inr \<lparr>shape = cast_shape, data = result3\<rparr>))
                | _ \<Rightarrow> Inl UnpackError)))"

subsection \<open>The potential kernel in float64\<close>

text \<open>
  \<open>round_f64\<close> rounds a real number to the nearest \<open>float64\<close>, ties to even, in the
  normal range (overflow and subnormal numbers are left out): the significand is the
  number scaled to 53 binary digits and rounded to an integer.
\<close>

definition round_even :: "real \<Rightarrow> int" where
  "round_even y =
     (let f = \<lfloor>y\<rfloor> in
      if y - of_int f < 1 / 2 then f
      else if 1 / 2 < y - of_int f then f + 1
      else if even f then f else f + 1)"

definition round_f64 :: "real \<Rightarrow> real" where
  "round_f64 x =
     (if x = 0 then 0
      else (let e = \<lfloor>log 2 \<bar>x\<bar>\<rfloor> - 52
            in of_int (round_even (x / 2 powr of_int e)) * 2 powr of_int e))"

text \<open>
  Lines 130--133 once more, each operation followed by the rounding that \<open>float64\<close>
  performs. \<open>radius ** 2\<close> is one multiplication; \<open>np.cos\<close> and \<open>np.sqrt\<close> are taken
  as correctly rounded.
\<close>

definition kernel_potential_f64 :: kernel where
  "kernel_potential_f64 longitude cosphi sinphi radius
       longitude_p cosphi_p sinphi_p radius_p radius_p_sq =
     (let coslambda = round_f64 (cos (round_f64 (longitude_p - longitude)));
          cospsi = round_f64 (round_f64 (sinphi_p * sinphi)
                     + round_f64 (round_f64 (cosphi_p * cosphi) * coslambda));
          distance_sq = round_f64 (round_f64 (round_f64 (radius ^ 2) + radius_p_sq)
                     - round_f64 (round_f64 (round_f64 (2 * radius) * radius_p) * cospsi));
          distance = round_f64 (sqrt distance_sq)
      in if distance = 0 then Inl ZeroDivisionError else Inr (round_f64 (1 / distance)))"

section \<open>Properties\<close>

subsection \<open>Auxiliary facts\<close>

text \<open>
  Each kernel is a function of the two shared intermediate quantities: it raises when
  \<open>distance_sq\<close> is zero and returns its quotient otherwise. No kernel raises
  anything but \<open>ZeroDivisionError\<close>.
\<close>

lemma kernel_potential_eq:
  "kernel_potential a b c d e f g h i =
     (if distance_sq a b c d e f g h i = 0 then Inl ZeroDivisionError
      else Inr (1 / sqrt (distance_sq a b c d e f g h i)))"
  by (simp add: kernel_potential_def truediv_def distance_sq_def cospsi_def Let_def)

lemma kernel_g_radial_eq:
  "kernel_g_radial a b c d e f g h i =
     (if distance_sq a b c d e f g h i = 0 then Inl ZeroDivisionError
      else Inr ((h * cospsi a b c e f g - d) / distance_sq a b c d e f g h i powr (3 / 2)))"
  by (simp add: kernel_g_radial_def truediv_def distance_sq_def cospsi_def Let_def)

lemma kernel_potential_error:
  "kernel_potential a b c d e f g h i = Inl err \<Longrightarrow> err = ZeroDivisionError"
  by (simp add: kernel_potential_eq split: if_splits)

lemma kernel_g_radial_error:
  "kernel_g_radial a b c d e f g h i = Inl err \<Longrightarrow> err = ZeroDivisionError"
  by (simp add: kernel_g_radial_eq split: if_splits)

lemma kernels_error:
  "kernels field = Some k \<Longrightarrow> k a b c d e f g h i = Inl err \<Longrightarrow> err = ZeroDivisionError"
  by (auto simp: kernels_def split: if_splits
        dest: kernel_potential_error kernel_g_radial_error)

lemma kernels_cases:
  "field \<in> {''potential'', ''g_radial''} \<Longrightarrow>
     (field = ''potential'' \<and> kernels field = Some kernel_potential)
   \<or> (field = ''g_radial'' \<and> kernels field = Some kernel_g_radial)"
  by (auto simp: kernels_def)

text \<open>
  The loop keeps the length of the buffer; it stops with the error of the first kernel
  call that raises, and with no error when none does.
\<close>

lemma jit_loop_length:
  "length (snd (jit_loop beyond k lons cs ss rs lp cp sp rp rq ls out)) = length out"
  by (induction ls arbitrary: out) (auto split: sum.splits)

lemma jit_loop_errors:
  assumes "\<And>a b c d err. k a b c d lp cp sp rp rq = Inl err \<Longrightarrow> err = ex"
  shows "fst (jit_loop beyond k lons cs ss rs lp cp sp rp rq ls out) = None
       \<or> fst (jit_loop beyond k lons cs ss rs lp cp sp rp rq ls out) = Some ex"
  using assms by (induction ls arbitrary: out) (auto split: sum.splits)

lemma jit_loop_raises:
  assumes only: "\<And>a b c d err. k a b c d lp cp sp rp rq = Inl err \<Longrightarrow> err = ex"
    and mem: "idx \<in> set ls"
    and bad: "k (getitem (beyond 0) lons idx) (getitem (beyond 1) cs idx)
           (getitem (beyond 2) ss idx) (getitem (beyond 3) rs idx) lp cp sp rp rq = Inl ex"
  shows "fst (jit_loop beyond k lons cs ss rs lp cp sp rp rq ls out) = Some ex"
  using mem
proof (induction ls arbitrary: out)
  case Nil
  then show ?case by simp
next
  case (Cons l ls)
  show ?case
  proof (cases "k (getitem (beyond 0) lons l) (getitem (beyond 1) cs l)
                  (getitem (beyond 2) ss l) (getitem (beyond 3) rs l) lp cp sp rp rq")
    case (Inl err)
    have "err = ex" using Inl by (rule only)
    with Inl show ?thesis by simp
  next
    case (Inr v)
    have "idx \<noteq> l" using Inr bad by auto
    then have "idx \<in> set ls" using Cons.prems by simp
    then have "fst (jit_loop beyond k lons cs ss rs lp cp sp rp rq ls (out[l := out ! l + v]))
        = Some ex"
      by (rule Cons.IH)
    then show ?thesis using Inr by simp
  qed
qed

text \<open>
  Over distinct indices that lie within the buffer and the four arrays, and on which
  no kernel call raises, the loop adds one kernel value to each visited element.
\<close>

lemma jit_loop_ok:
  assumes "distinct ls"
    and "\<forall>l\<in>set ls. l < length out \<and> l < length lons \<and> l < length cs \<and> l < length ss
           \<and> l < length rs"
    and "\<forall>l\<in>set ls. k (lons ! l) (cs ! l) (ss ! l) (rs ! l) lp cp sp rp rq = Inr (v l)"
  shows "jit_loop beyond k lons cs ss rs lp cp sp rp rq ls out =
     (None, map (\<lambda>i. if i \<in> set ls then out ! i + v i else out ! i) [0..<length out])"
  using assms
proof (induction ls arbitrary: out)
  case Nil
  show ?case by (simp add: map_nth)
next
  case (Cons l ls)
  let ?out = "out[l := out ! l + v l]"
  have l: "l < length out" "l < length lons" "l < length cs" "l < length ss" "l < length rs"
    using Cons.prems(2) by simp_all
  have nl: "l \<notin> set ls" and d: "distinct ls"
    using Cons.prems(1) by simp_all
  have kl: "k (lons ! l) (cs ! l) (ss ! l) (rs ! l) lp cp sp rp rq = Inr (v l)"
    using Cons.prems(3) by simp
  have pre: "\<forall>l\<in>set ls. l < length ?out \<and> l < length lons \<and> l < length cs \<and> l < length ss
      \<and> l < length rs"
    using Cons.prems(2) by simp
  have kv: "\<forall>l\<in>set ls. k (lons ! l) (cs ! l) (ss ! l) (rs ! l) lp cp sp rp rq = Inr (v l)"
    using Cons.prems(3) by simp
  have step: "jit_loop beyond k lons cs ss rs lp cp sp rp rq (l # ls) out =
        jit_loop beyond k lons cs ss rs lp cp sp rp rq ls ?out"
    using l kl by (simp add: getitem_def)
  have "map (\<lambda>i. if i \<in> set ls then ?out ! i + v i else ?out ! i) [0..<length ?out] =
        map (\<lambda>i. if i \<in> set (l # ls) then out ! i + v i else out ! i) [0..<length out]"
    using nl l(1) by (auto simp: nth_list_update)
  then show ?case
    unfolding step Cons.IH [OF d pre kv] by simp
qed

text \<open>
  \<open>jit_point_mass_gravity\<close> is this loop over all indices of the buffer, on the
  arrays prepared from the coordinates.
\<close>

lemma jit_point_mass_gravity_loop: "jit_point_mass_gravity beyond longitude latitude radius
           [longitude_p, latitude_p, radius_p] k out =
        jit_loop beyond k (map radians longitude) (map (\<lambda>x. cos (radians x)) latitude)
          (map (\<lambda>x. sin (radians x)) latitude) radius
          (radians longitude_p) (cos (radians latitude_p)) (sin (radians latitude_p))
          radius_p (radius_p ^ 2) [0..<length out] out"
  unfolding jit_point_mass_gravity_def Let_def list.case by (rule refl)

lemma jit_loop_reads_in_range:
  assumes n: "length out \<le> length longitude" "length out \<le> length latitude"
    "length out \<le> length (radius :: real list)"
  shows "\<forall>l\<in>set [0..<length out]. l < length out \<and> l < length (map radians longitude)
      \<and> l < length (map (\<lambda>x. cos (radians x)) latitude)
      \<and> l < length (map (\<lambda>x. sin (radians x)) latitude) \<and> l < length radius"
    using n by simp

lemma kernel_call_in_range:
  assumes n: "length out \<le> length longitude" "length out \<le> length latitude"
    "length out \<le> length (radius :: real list)"
    and v: "\<forall>l<length out. kernel_call k longitude latitude radius
            longitude_p latitude_p radius_p l = Inr (v l)"
  shows "\<forall>l\<in>set [0..<length out].
      k (map radians longitude ! l) (map (\<lambda>x. cos (radians x)) latitude ! l)
        (map (\<lambda>x. sin (radians x)) latitude ! l) (radius ! l)
        (radians longitude_p) (cos (radians latitude_p)) (sin (radians latitude_p))
        radius_p (radius_p ^ 2) = Inr (v l)"
  proof
    fix l assume "l \<in> set [0..<length out]"
    then have l: "l < length out" by simp
    then have ll: "l < length longitude" "l < length latitude" using n by simp_all
    have "kernel_call k longitude latitude radius longitude_p latitude_p radius_p l = Inr (v l)"
      using v l by blast
    then show "k (map radians longitude ! l) (map (\<lambda>x. cos (radians x)) latitude ! l)
        (map (\<lambda>x. sin (radians x)) latitude ! l) (radius ! l)
        (radians longitude_p) (cos (radians latitude_p)) (sin (radians latitude_p))
        radius_p (radius_p ^ 2) = Inr (v l)"
      unfolding kernel_call_def nth_map [OF ll(1)] nth_map [OF ll(2)] .
  qed

lemma accumulated_map: "map (\<lambda>i. if i \<in> set [0..<length out] then out ! i + v i else out ! i)
             [0..<length out] = map (\<lambda>l. (out ! l :: real) + v l) [0..<length out]"
  by (rule map_cong) simp_all

lemma jit_point_mass_gravity_ok:
  assumes n: "length out \<le> length longitude" "length out \<le> length latitude"
    "length out \<le> length radius"
    and v: "\<forall>l<length out. kernel_call k longitude latitude radius
            longitude_p latitude_p radius_p l = Inr (v l)"
  shows "jit_point_mass_gravity beyond longitude latitude radius
           [longitude_p, latitude_p, radius_p] k out =
     (None, map (\<lambda>l. out ! l + v l) [0..<length out])"
proof -
  note loop = jit_loop_ok [where k = k and v = v and ls = "[0..<length out]" and out = out
      and lons = "map radians longitude" and cs = "map (\<lambda>x. cos (radians x)) latitude"
      and ss = "map (\<lambda>x. sin (radians x)) latitude" and rs = radius
      and lp = "radians longitude_p" and cp = "cos (radians latitude_p)"
      and sp = "sin (radians latitude_p)" and rp = radius_p and rq = "radius_p ^ 2"
      and beyond = beyond, OF distinct_upt jit_loop_reads_in_range [OF n] kernel_call_in_range [OF n v]]
  show ?thesis
    unfolding jit_point_mass_gravity_loop loop accumulated_map by (rule refl)
qed

lemma jit_point_mass_gravity_outcome:
  assumes "kernels field = Some k"
  shows "\<exists>err out'. jit_point_mass_gravity beyond longitude latitude radius
             [longitude_p, latitude_p, radius_p] k out = (err, out')
           \<and> length out' = length out \<and> (err = None \<or> err = Some ZeroDivisionError)"
proof -
  let ?j = "jit_loop beyond k (map radians longitude) (map (\<lambda>x. cos (radians x)) latitude)
     (map (\<lambda>x. sin (radians x)) latitude) radius
     (radians longitude_p) (cos (radians latitude_p)) (sin (radians latitude_p))
     radius_p (radius_p ^ 2) [0..<length out] out"
  have only: "\<And>a b c d err. k a b c d (radians longitude_p) (cos (radians latitude_p))
       (sin (radians latitude_p)) radius_p (radius_p ^ 2) = Inl err \<Longrightarrow> err = ZeroDivisionError"
    by (rule kernels_error [OF assms])
  have e: "fst ?j = None \<or> fst ?j = Some ZeroDivisionError"
    by (rule jit_loop_errors [where k = k, OF only])
  have l: "length (snd ?j) = length out"
    by (rule jit_loop_length)
  have "jit_point_mass_gravity beyond longitude latitude radius
             [longitude_p, latitude_p, radius_p] k out = (fst ?j, snd ?j)"
    unfolding jit_point_mass_gravity_loop by simp
  with e l show ?thesis by blast
qed

text \<open>
  Broadcasting arrays of one common shape yields that shape.
\<close>

lemma broadcast_dims_same: "broadcast_dims xs xs = Some xs"
  by (induction xs) auto

lemma broadcast_shapes_same: "broadcast_shapes s s = Some s"
  by (simp add: broadcast_shapes_def broadcast_dims_same)

lemma broadcast_shapes_Nil: "broadcast_shapes [] s = Some s"
  by (simp add: broadcast_shapes_def)

lemma np_broadcast_same_shape:
  "shape a = s \<Longrightarrow> shape b = s \<Longrightarrow> shape c = s \<Longrightarrow> np_broadcast [a, b, c] = Inr s"
  by (simp add: np_broadcast_def broadcast_shapes_same broadcast_shapes_Nil)

text \<open>
  The substring test of line 51 on the two recognised field names.
\<close>

lemma str_in_potential: "str_in ''potential'' ''g_radial'' = False"
  by simp

lemma str_in_g_radial: "str_in ''g_radial'' ''g_radial'' = True"
  by simp

text \<open>
  The result of \<open>point_mass_gravity\<close> when the field is recognised, three coordinate
  arrays are given, each of them has as many elements as the broadcast shape, and no
  kernel call raises.
\<close>

lemma point_mass_gravity_ok:
  assumes k: "kernels field = Some k"
    and c: "take 3 coordinates = [lo, la, ra]"
    and b: "np_broadcast [lo, la, ra] = Inr s"
    and n: "length (data lo) = prod_list s" "length (data la) = prod_list s"
       "length (data ra) = prod_list s"
    and v: "\<forall>l<prod_list s. kernel_call k (data lo) (data la) (data ra)
              longitude_p latitude_p radius_p l = Inr (v l)"
  shows "point_mass_gravity beyond G coordinates [longitude_p, latitude_p, radius_p] mass field =
     Inr \<lparr>shape = s,
          data = map (\<lambda>l. (if str_in field ''g_radial'' then 100000 else 1)
                           * (G * mass * v l)) [0..<prod_list s]\<rparr>"
proof -
  let ?out = "replicate (prod_list s) (0::real)"
  have n': "length ?out \<le> length (data lo)" "length ?out \<le> length (data la)"
    "length ?out \<le> length (data ra)"
    using n by simp_all
  have v': "\<forall>l<length ?out. kernel_call k (data lo) (data la) (data ra)
              longitude_p latitude_p radius_p l = Inr (v l)"
    using v by simp
  have m: "map (\<lambda>l. ?out ! l + v l) [0..<length ?out] = map v [0..<prod_list s]"
    by (simp cong: map_cong)
  have j: "jit_point_mass_gravity beyond (data lo) (data la) (data ra)
        [longitude_p, latitude_p, radius_p] k ?out = (None, map v [0..<prod_list s])"
    unfolding jit_point_mass_gravity_ok [where v = v and k = k and out = ?out, OF n' v'] m
    by (rule refl)
  show ?thesis
    unfolding point_mass_gravity_def k c b
    by (simp add: ravel_def j Let_def)
qed

text \<open>
  The cosine does not see the order of a difference.
\<close>

lemma cos_diff_swap: "cos (a - b) = cos (b - (a::real))"
  by (metis cos_minus minus_diff_eq)

text \<open>
  In exact arithmetic \<open>distance_sq\<close> is zero when the computation point has the
  longitude, latitude and radius of the point mass.
\<close>

lemma distance_sq_collocated:
  "distance_sq (radians longitude_p) (cos (radians latitude_p)) (sin (radians latitude_p))
       radius_p
       (radians longitude_p) (cos (radians latitude_p)) (sin (radians latitude_p))
       radius_p (radius_p ^ 2) = 0"
proof -
  have "cospsi (radians longitude_p) (cos (radians latitude_p)) (sin (radians latitude_p))
          (radians longitude_p) (cos (radians latitude_p)) (sin (radians latitude_p)) = 1"
    using sin_cos_squared_add [of "radians latitude_p"]
    by (simp add: cospsi_def power2_eq_square)
  then show ?thesis
    by (simp add: distance_sq_def power2_eq_square)
qed

text \<open>
  \<open>round_f64\<close> on a number whose significand, after scaling by a power of two, lies
  between \<open>2\<^sup>5\<^sup>2\<close> and \<open>2\<^sup>5\<^sup>3\<close>, and its values on the numbers that the
  potential kernel meets for the radii 134217729 and 134217728.
\<close>

lemma round_f64_scaled:
  assumes lo: "2 ^ 52 \<le> \<bar>x\<bar> / 2 powr of_int k" and hi: "\<bar>x\<bar> / 2 powr of_int k < 2 ^ 53"
  shows "round_f64 x = of_int (round_even (x / 2 powr of_int k)) * 2 powr of_int k"
proof -
  have p: "(0::real) < 2 powr of_int k" by simp
  have x0: "x \<noteq> 0" using lo by auto
  have a: "(2::real) powr of_int (52 + k) = 2 ^ 52 * 2 powr of_int k"
    by (simp add: powr_add)
  have b: "(2::real) powr (of_int (52 + k) + 1) = 2 ^ 53 * 2 powr of_int k"
    by (simp add: powr_add)
  have l1: "2 powr of_int (52 + k) \<le> \<bar>x\<bar>"
    unfolding a using lo p by (simp add: pos_le_divide_eq)
  have l2: "\<bar>x\<bar> < 2 powr (of_int (52 + k) + 1)"
    unfolding b using hi p by (simp add: pos_divide_less_eq)
  have "\<lfloor>log 2 \<bar>x\<bar>\<rfloor> = 52 + k"
    using floor_log_eq_powr_iff [of "\<bar>x\<bar>" 2 "52 + k"] x0 l1 l2 by simp
  then show ?thesis
    using x0 by (simp add: round_f64_def Let_def)
qed

lemma round_f64_0: "round_f64 0 = 0"
  by (simp add: round_f64_def)

lemma round_f64_1: "round_f64 1 = 1"
  using round_f64_scaled [of 1 "- 52"]
  by (simp add: powr_minus round_even_def Let_def field_simps)

lemma round_f64_radius_sq: "round_f64 18014398777917441 = 18014398777917440"
  using round_f64_scaled [of 18014398777917441 2]
  by (simp add: round_even_def Let_def)

lemma round_f64_sum: "round_f64 36028797287399424 = 36028797287399424"
  using round_f64_scaled [of 36028797287399424 3]
  by (simp add: round_even_def Let_def)

lemma round_f64_twice: "round_f64 268435458 = 268435458"
  using round_f64_scaled [of 268435458 "- 24"]
  by (simp add: powr_minus round_even_def Let_def field_simps)

text \<open>
  With these arguments the \<open>float64\<close> kernel finds \<open>distance_sq = 0\<close> and its division
  raises.
\<close>

lemma kernel_potential_f64_radii:
  "kernel_potential_f64 0 1 0 134217729 0 1 0 134217728 18014398509481984
     = Inl ZeroDivisionError"
  by (simp add: kernel_potential_f64_def Let_def
        round_f64_0 round_f64_1 round_f64_radius_sq round_f64_sum round_f64_twice)

subsection \<open>The claims\<close>

text \<open>
  C1. For a computation point and a point mass given by longitude, latitude (degrees)
  and radius (meters), the potential kernel, called with the arguments prepared from
  them, returns \<open>1 / sqrt distance_sq\<close>, where
  \<open>cospsi = sin lat_p * sin lat + cos lat_p * cos lat * cos (lon_p - lon)\<close> on the angles
  in radians and \<open>distance_sq = radius\<^sup>2 + radius_p\<^sup>2 - 2 * radius * radius_p * cospsi\<close>.
  Where \<open>distance_sq\<close> is zero the quotient does not exist and the compiled division
  raises.
\<close>

theorem kernel_potential_formula:
  "kernel_potential (radians longitude) (cos (radians latitude)) (sin (radians latitude)) radius
       (radians longitude_p) (cos (radians latitude_p)) (sin (radians latitude_p))
       radius_p (radius_p ^ 2) =
     (let cospsi_spec = sin (radians latitude_p) * sin (radians latitude)
            + cos (radians latitude_p) * cos (radians latitude)
              * cos (radians longitude_p - radians longitude);
          distance_sq_spec = radius ^ 2 + radius_p ^ 2 - 2 * radius * radius_p * cospsi_spec
      in if distance_sq_spec = 0 then Inl ZeroDivisionError
         else Inr (1 / sqrt distance_sq_spec))"
  by (simp add: kernel_potential_def truediv_def Let_def)

text \<open>
  C2. Under the same preparation, the radial-acceleration kernel returns
  \<open>(radius_p * cospsi - radius) / distance_sq\<close> to the power \<open>3 / 2\<close>, with \<open>cospsi\<close>
  and \<open>distance_sq\<close> as for the potential kernel, and raises where \<open>distance_sq\<close> is
  zero.
\<close>

theorem kernel_g_radial_formula:
  "kernel_g_radial (radians longitude) (cos (radians latitude)) (sin (radians latitude)) radius
       (radians longitude_p) (cos (radians latitude_p)) (sin (radians latitude_p))
       radius_p (radius_p ^ 2) =
     (let cospsi_spec = sin (radians latitude_p) * sin (radians latitude)
            + cos (radians latitude_p) * cos (radians latitude)
              * cos (radians longitude_p - radians longitude);
          distance_sq_spec = radius ^ 2 + radius_p ^ 2 - 2 * radius * radius_p * cospsi_spec
      in if distance_sq_spec = 0 then Inl ZeroDivisionError
         else Inr ((radius_p * cospsi_spec - radius) / distance_sq_spec powr (3 / 2)))"
  by (simp add: kernel_g_radial_def truediv_def Let_def)

text \<open>
  C8. Exchanging which of two points \<open>a\<close> and \<open>b\<close> is the computation point and which
  is the point mass changes neither \<open>cospsi\<close> nor \<open>distance_sq\<close>: the intermediate
  quantities of both kernels are symmetric in the two points.
\<close>

theorem cospsi_distance_sq_symmetric:
  "cospsi (radians longitude_a) (cos (radians latitude_a)) (sin (radians latitude_a))
       (radians longitude_b) (cos (radians latitude_b)) (sin (radians latitude_b)) =
     cospsi (radians longitude_b) (cos (radians latitude_b)) (sin (radians latitude_b))
       (radians longitude_a) (cos (radians latitude_a)) (sin (radians latitude_a))
   \<and> distance_sq (radians longitude_a) (cos (radians latitude_a)) (sin (radians latitude_a))
          radius_a
          (radians longitude_b) (cos (radians latitude_b)) (sin (radians latitude_b))
          radius_b (radius_b ^ 2) =
     distance_sq (radians longitude_b) (cos (radians latitude_b)) (sin (radians latitude_b))
          radius_b
          (radians longitude_a) (cos (radians latitude_a)) (sin (radians latitude_a))
          radius_a (radius_a ^ 2)"
  by (simp add: cospsi_def distance_sq_def
        cos_diff_swap [of "radians longitude_a" "radians longitude_b"]
        mult.commute add.commute)

text \<open>
  C6. When the three coordinate arrays are at least as long as the buffer and no kernel
  call divides by zero, the loop raises nothing and returns the buffer it was given with
  the same number of elements, each element being its previous value plus the kernel
  value of its computation point: the loop adds to the buffer and never overwrites or
  reallocates it.
\<close>

theorem jit_point_mass_gravity_accumulates:
  assumes n: "length out \<le> length longitude" "length out \<le> length latitude"
    "length out \<le> length radius"
    and v: "\<forall>l<length out. \<exists>v. kernel_call kernel_f longitude latitude radius
              longitude_p latitude_p radius_p l = Inr v"
  shows "\<exists>out'. jit_point_mass_gravity beyond longitude latitude radius
             [longitude_p, latitude_p, radius_p] kernel_f out = (None, out')
          \<and> length out' = length out
          \<and> (\<forall>l<length out. \<exists>v. kernel_call kernel_f longitude latitude radius
                    longitude_p latitude_p radius_p l = Inr v
                \<and> out' ! l = out ! l + v)"
proof -
  from v obtain f where f: "\<forall>l<length out. kernel_call kernel_f longitude latitude radius
              longitude_p latitude_p radius_p l = Inr (f l)"
    by metis
  show ?thesis
    unfolding jit_point_mass_gravity_ok [where v = f and k = kernel_f, OF n f]
    using f by simp
qed

theorem jit_point_mass_gravity_accumulates_witness:
  "length [5, 7 :: real] \<le> length [0, 0 :: real]
   \<and> length [5, 7 :: real] \<le> length [2, 3 :: real]
   \<and> (\<exists>out'. jit_point_mass_gravity zero_memory [0, 0] [0, 0] [2, 3] [0, 0, 1]
                  kernel_potential [5, 7] = (None, out')
          \<and> length out' = 2 \<and> out' ! 0 = 6 \<and> out' ! 1 = 15 / 2)"
proof -
  have k0: "kernel_call kernel_potential [0, 0] [0, 0] [2, 3] 0 0 1 0 = Inr 1"
    by (simp add: kernel_call_def kernel_potential_def truediv_def radians_def Let_def)
  have k1: "kernel_call kernel_potential [0, 0] [0, 0] [2, 3] 0 0 1 1 = Inr (1 / 2)"
    by (simp add: kernel_call_def kernel_potential_def truediv_def radians_def Let_def)
  have v: "\<forall>l<length [5, 7 :: real].
      \<exists>v. kernel_call kernel_potential [0, 0] [0, 0] [2, 3] 0 0 1 l = Inr v"
  proof (intro allI impI)
    fix l :: nat
    assume "l < length [5, 7 :: real]"
    then have "l = 0 \<or> l = 1" by auto
    then show "\<exists>v. kernel_call kernel_potential [0, 0] [0, 0] [2, 3] 0 0 1 l = Inr v"
      using k0 k1 by auto
  qed
  obtain out' where j: "jit_point_mass_gravity zero_memory [0, 0] [0, 0] [2, 3] [0, 0, 1]
        kernel_potential [5, 7] = (None, out')"
    and len: "length out' = length [5, 7 :: real]"
    and el: "\<forall>l<length [5, 7 :: real].
         \<exists>v. kernel_call kernel_potential [0, 0] [0, 0] [2, 3] 0 0 1 l = Inr v
           \<and> out' ! l = [5, 7] ! l + v"
    using jit_point_mass_gravity_accumulates
      [of "[5, 7]" "[0, 0]" "[0, 0]" "[2, 3]" kernel_potential 0 0 1 zero_memory] v
    by auto
  have ex: "out' ! 0 = 6"
    using el [rule_format, of 0] k0 by auto
  have e1: "out' ! 1 = 15 / 2"
    using el [rule_format, of 1] k1 by auto
  show ?thesis
    using j len ex e1 by simp
qed

text \<open>
  C4. A field name other than \<open>potential\<close> and \<open>g_radial\<close> makes \<open>point_mass_gravity\<close>
  raise the error of line 43, whose message names the field. The result is this error
  whatever the other arguments are, also where the broadcast, the unpacking or the loop
  would fail: the check comes before any allocation or computation, and no array is
  returned.
\<close>

theorem point_mass_gravity_invalid_field:
  assumes "field \<notin> {''potential'', ''g_radial''}"
  shows "point_mass_gravity beyond G coordinates point mass field =
           Inl (ValueError (''Gravity field '' @ field @ '' not recognized''))"
  using assms by (simp add: point_mass_gravity_def kernels_def)

theorem point_mass_gravity_invalid_field_witness:
  "''bogus'' \<notin> {''potential'', ''g_radial''}
   \<and> point_mass_gravity zero_memory 1 [] [] 1 ''bogus'' =
       Inl (ValueError ''Gravity field bogus not recognized'')"
  using point_mass_gravity_invalid_field [of "''bogus''" zero_memory 1 "[]" "[]" 1] by simp

text \<open>
  C3. For a call with three coordinate arrays that each have as many elements as the
  broadcast shape, and with kernel values \<open>vp l\<close> and \<open>vg l\<close> at every computation
  point (no division by zero), every element of the \<open>potential\<close> result is \<open>G * mass\<close>
  times the potential kernel value (no further factor), and every element of the
  \<open>g_radial\<close> result is \<open>100000 * G * mass\<close> times the radial kernel value: the factor
  \<open>1e5\<close> is applied for \<open>g_radial\<close> and not for \<open>potential\<close>. With a single point mass
  the kernel sum of an element has one term.
\<close>

theorem point_mass_gravity_scaling:
  assumes c: "take 3 coordinates = [lo, la, ra]"
    and b: "np_broadcast [lo, la, ra] = Inr s"
    and n: "length (data lo) = prod_list s" "length (data la) = prod_list s"
       "length (data ra) = prod_list s"
    and vp: "\<forall>l<prod_list s. kernel_call kernel_potential (data lo) (data la) (data ra)
               longitude_p latitude_p radius_p l = Inr (vp l)"
    and vg: "\<forall>l<prod_list s. kernel_call kernel_g_radial (data lo) (data la) (data ra)
               longitude_p latitude_p radius_p l = Inr (vg l)"
  shows "point_mass_gravity beyond G coordinates [longitude_p, latitude_p, radius_p] mass
             ''potential'' =
           Inr \<lparr>shape = s, data = map (\<lambda>l. G * mass * vp l) [0..<prod_list s]\<rparr>
       \<and> point_mass_gravity beyond G coordinates [longitude_p, latitude_p, radius_p] mass
             ''g_radial'' =
           Inr \<lparr>shape = s,
                data = map (\<lambda>l. 100000 * (G * mass * vg l)) [0..<prod_list s]\<rparr>"
proof -
  have kp: "kernels ''potential'' = Some kernel_potential"
    and kg: "kernels ''g_radial'' = Some kernel_g_radial"
    by (simp_all add: kernels_def)
  show ?thesis
    unfolding point_mass_gravity_ok [where v = vp, OF kp c b n vp]
      point_mass_gravity_ok [where v = vg, OF kg c b n vg]
    by simp
qed

theorem point_mass_gravity_scaling_witness:
  "take 3 [\<lparr>shape = [1], data = [0]\<rparr>, \<lparr>shape = [1], data = [0]\<rparr>, \<lparr>shape = [1], data = [2]\<rparr>]
     = [\<lparr>shape = [1], data = [0]\<rparr>, \<lparr>shape = [1], data = [0]\<rparr>, \<lparr>shape = [1], data = [2]\<rparr>]
   \<and> np_broadcast [\<lparr>shape = [1], data = [0]\<rparr>, \<lparr>shape = [1], data = [0]\<rparr>,
                    \<lparr>shape = [1], data = [2]\<rparr>] = Inr [1]
   \<and> kernel_call kernel_potential [0] [0] [2] 0 0 1 0 = Inr 1
   \<and> kernel_call kernel_g_radial [0] [0] [2] 0 0 1 0 = Inr (- 1)
   \<and> point_mass_gravity zero_memory 2
         [\<lparr>shape = [1], data = [0]\<rparr>, \<lparr>shape = [1], data = [0]\<rparr>, \<lparr>shape = [1], data = [2]\<rparr>]
         [0, 0, 1] 3 ''potential'' = Inr \<lparr>shape = [1], data = [6]\<rparr>
   \<and> point_mass_gravity zero_memory 2
         [\<lparr>shape = [1], data = [0]\<rparr>, \<lparr>shape = [1], data = [0]\<rparr>, \<lparr>shape = [1], data = [2]\<rparr>]
         [0, 0, 1] 3 ''g_radial'' = Inr \<lparr>shape = [1], data = [- 600000]\<rparr>"
proof -
  have b: "np_broadcast [\<lparr>shape = [1], data = [0]\<rparr>, \<lparr>shape = [1], data = [0]\<rparr>,
                    \<lparr>shape = [1], data = [2]\<rparr>] = Inr [1]"
    by (simp add: np_broadcast_def broadcast_shapes_def)
  have kp: "kernel_call kernel_potential [0] [0] [2] 0 0 1 0 = Inr 1"
    by (simp add: kernel_call_def kernel_potential_def truediv_def radians_def Let_def)
  have kg: "kernel_call kernel_g_radial [0] [0] [2] 0 0 1 0 = Inr (- 1)"
    by (simp add: kernel_call_def kernel_g_radial_def truediv_def radians_def Let_def)
  show ?thesis
    using b kp kg point_mass_gravity_scaling
      [of "[\<lparr>shape = [1], data = [0]\<rparr>, \<lparr>shape = [1], data = [0]\<rparr>, \<lparr>shape = [1], data = [2]\<rparr>]"
          "\<lparr>shape = [1], data = [0]\<rparr>" "\<lparr>shape = [1], data = [0]\<rparr>" "\<lparr>shape = [1], data = [2]\<rparr>"
          "[1]" 0 0 1 "\<lambda>l. 1" "\<lambda>l. - 1" zero_memory 2 3]
    by simp
qed

text \<open>
  C7. For coordinate arrays of any broadcast-compatible shapes, the array that
  \<open>point_mass_gravity\<close> returns has the broadcast shape \<open>s\<close> of the first three
  coordinate arrays and as many elements as that shape; the only call that returns no
  array is one in which a kernel divides by zero. The coordinate arrays need not have
  the broadcast shape themselves: the loop then reads past their ends, which raises
  nothing.
\<close>

theorem point_mass_gravity_result_shape:
  assumes f: "field \<in> {''potential'', ''g_radial''}"
    and c: "take 3 coordinates = [lo, la, ra]"
    and b: "np_broadcast [lo, la, ra] = Inr s"
  shows "point_mass_gravity beyond G coordinates [longitude_p, latitude_p, radius_p] mass field
           = Inl ZeroDivisionError
       \<or> (\<exists>result. point_mass_gravity beyond G coordinates
                      [longitude_p, latitude_p, radius_p] mass field = Inr result
             \<and> shape result = s \<and> length (data result) = prod_list s)"
proof -
  from kernels_cases [OF f] obtain k where k: "kernels field = Some k" by blast
  obtain err out' where j: "jit_point_mass_gravity beyond (data lo) (data la) (data ra)
        [longitude_p, latitude_p, radius_p] k (replicate (prod_list s) 0) = (err, out')"
    and len: "length out' = prod_list s"
    and e: "err = None \<or> err = Some ZeroDivisionError"
    using jit_point_mass_gravity_outcome [OF k, of beyond "data lo" "data la" "data ra"
        longitude_p latitude_p radius_p "replicate (prod_list s) 0"]
    by auto
  show ?thesis
    using e
  proof
    assume "err = None"
    then show ?thesis
      unfolding point_mass_gravity_def k c b
      by (simp add: ravel_def j Let_def len)
  next
    assume "err = Some ZeroDivisionError"
    then show ?thesis
      unfolding point_mass_gravity_def k c b
      by (simp add: ravel_def j Let_def)
  qed
qed

text \<open>
  A row of two longitudes, a column of two latitudes and a single radius broadcast to
  the shape \<open>2 \<times> 2\<close>, and the call returns an array of that shape.
\<close>

theorem point_mass_gravity_result_shape_witness:
  "''potential'' \<in> {''potential'', ''g_radial''}
   \<and> np_broadcast [\<lparr>shape = [1, 2], data = [0, 0]\<rparr>, \<lparr>shape = [2, 1], data = [0, 0]\<rparr>,
                    \<lparr>shape = [1, 1], data = [2]\<rparr>] = Inr [2, 2]
   \<and> (\<exists>result. point_mass_gravity zero_memory 1
         [\<lparr>shape = [1, 2], data = [0, 0]\<rparr>, \<lparr>shape = [2, 1], data = [0, 0]\<rparr>,
          \<lparr>shape = [1, 1], data = [2]\<rparr>] [0, 0, 1] 1 ''potential'' = Inr result
        \<and> shape result = [2, 2] \<and> length (data result) = 4)"
proof -
  have b: "np_broadcast [\<lparr>shape = [1, 2], data = [0, 0]\<rparr>, \<lparr>shape = [2, 1], data = [0, 0]\<rparr>,
                    \<lparr>shape = [1, 1], data = [2]\<rparr>] = Inr [2, 2]"
    by (simp add: np_broadcast_def broadcast_shapes_def)
  have r: "point_mass_gravity zero_memory 1
         [\<lparr>shape = [1, 2], data = [0, 0]\<rparr>, \<lparr>shape = [2, 1], data = [0, 0]\<rparr>,
          \<lparr>shape = [1, 1], data = [2]\<rparr>] [0, 0, 1] 1 ''potential''
       = Inr \<lparr>shape = [2, 2], data = [1, 1, 1, 1]\<rparr>"
    by (simp add: point_mass_gravity_def kernels_def np_broadcast_def broadcast_shapes_def
          ravel_def jit_point_mass_gravity_def getitem_def zero_memory_def
          kernel_potential_def truediv_def radians_def Let_def upt_rec eval_nat_numeral)
  show ?thesis
    using b r point_mass_gravity_result_shape
      [of "''potential''"
          "[\<lparr>shape = [1, 2], data = [0, 0]\<rparr>, \<lparr>shape = [2, 1], data = [0, 0]\<rparr>,
            \<lparr>shape = [1, 1], data = [2]\<rparr>]"
          "\<lparr>shape = [1, 2], data = [0, 0]\<rparr>" "\<lparr>shape = [2, 1], data = [0, 0]\<rparr>"
          "\<lparr>shape = [1, 1], data = [2]\<rparr>" "[2, 2]" zero_memory 1 0 0 1 1]
    by simp
qed

text \<open>
  C9, as amended. When \<open>distance_sq\<close> is zero for some computation point within the
  coordinate arrays, as it is for a point at the location of the point mass when the
  arithmetic is exact, both kernels divide by zero and \<open>point_mass_gravity\<close> raises
  \<open>ZeroDivisionError\<close>: it returns no array, with finite elements or otherwise.
\<close>

theorem point_mass_gravity_zero_distance:
  assumes f: "field \<in> {''potential'', ''g_radial''}"
    and c: "take 3 coordinates = [lo, la, ra]"
    and b: "np_broadcast [lo, la, ra] = Inr s"
    and l: "l < prod_list s" "l < length (data lo)" "l < length (data la)"
       "l < length (data ra)"
    and z: "distance_sq (radians (data lo ! l)) (cos (radians (data la ! l)))
              (sin (radians (data la ! l))) (data ra ! l)
              (radians longitude_p) (cos (radians latitude_p)) (sin (radians latitude_p))
              radius_p (radius_p ^ 2) = 0"
  shows "point_mass_gravity beyond G coordinates [longitude_p, latitude_p, radius_p] mass field
           = Inl ZeroDivisionError"
proof -
  from kernels_cases [OF f] have "\<exists>k. kernels field = Some k
      \<and> k (radians (data lo ! l)) (cos (radians (data la ! l)))
              (sin (radians (data la ! l))) (data ra ! l)
              (radians longitude_p) (cos (radians latitude_p)) (sin (radians latitude_p))
              radius_p (radius_p ^ 2) = Inl ZeroDivisionError"
    using z by (auto simp: kernel_potential_eq kernel_g_radial_eq)
  then obtain k where k: "kernels field = Some k"
    and bad: "k (radians (data lo ! l)) (cos (radians (data la ! l)))
              (sin (radians (data la ! l))) (data ra ! l)
              (radians longitude_p) (cos (radians latitude_p)) (sin (radians latitude_p))
              radius_p (radius_p ^ 2) = Inl ZeroDivisionError"
    by blast
  let ?out = "replicate (prod_list s) (0::real)"
  have only: "\<And>a b c d err. k a b c d (radians longitude_p) (cos (radians latitude_p))
       (sin (radians latitude_p)) radius_p (radius_p ^ 2) = Inl err \<Longrightarrow> err = ZeroDivisionError"
    by (rule kernels_error [OF k])
  have mem: "l \<in> set [0..<length ?out]"
    using l(1) by simp
  have bad': "k (getitem (beyond 0) (map radians (data lo)) l)
        (getitem (beyond 1) (map (\<lambda>x. cos (radians x)) (data la)) l)
        (getitem (beyond 2) (map (\<lambda>x. sin (radians x)) (data la)) l)
        (getitem (beyond 3) (data ra) l)
        (radians longitude_p) (cos (radians latitude_p)) (sin (radians latitude_p))
        radius_p (radius_p ^ 2) = Inl ZeroDivisionError"
    using bad l by (simp add: getitem_def)
  have "fst (jit_point_mass_gravity beyond (data lo) (data la) (data ra)
        [longitude_p, latitude_p, radius_p] k ?out) = Some ZeroDivisionError"
    unfolding jit_point_mass_gravity_loop
    by (rule jit_loop_raises [where k = k and idx = l, OF only mem bad'])
  then obtain out' where j: "jit_point_mass_gravity beyond (data lo) (data la) (data ra)
        [longitude_p, latitude_p, radius_p] k ?out = (Some ZeroDivisionError, out')"
    by (cases "jit_point_mass_gravity beyond (data lo) (data la) (data ra)
        [longitude_p, latitude_p, radius_p] k ?out") auto
  show ?thesis
    unfolding point_mass_gravity_def k c b
    by (simp add: ravel_def j Let_def)
qed

theorem point_mass_gravity_zero_distance_witness:
  "''g_radial'' \<in> {''potential'', ''g_radial''}
   \<and> np_broadcast [\<lparr>shape = [1], data = [0]\<rparr>, \<lparr>shape = [1], data = [0]\<rparr>,
                    \<lparr>shape = [1], data = [1]\<rparr>] = Inr [1]
   \<and> distance_sq (radians 0) (cos (radians 0)) (sin (radians 0)) 1
        (radians 0) (cos (radians 0)) (sin (radians 0)) 1 (1 ^ 2) = 0
   \<and> point_mass_gravity zero_memory 1
        [\<lparr>shape = [1], data = [0]\<rparr>, \<lparr>shape = [1], data = [0]\<rparr>, \<lparr>shape = [1], data = [1]\<rparr>]
        [0, 0, 1] 1 ''g_radial'' = Inl ZeroDivisionError"
proof -
  have b: "np_broadcast [\<lparr>shape = [1], data = [0]\<rparr>, \<lparr>shape = [1], data = [0]\<rparr>,
                    \<lparr>shape = [1], data = [1]\<rparr>] = Inr [1]"
    by (simp add: np_broadcast_def broadcast_shapes_def)
  have z: "distance_sq (radians 0) (cos (radians 0)) (sin (radians 0)) 1
        (radians 0) (cos (radians 0)) (sin (radians 0)) 1 (1 ^ 2) = 0"
    by (simp add: distance_sq_def cospsi_def radians_def)
  show ?thesis
    using b z point_mass_gravity_zero_distance
      [of "''g_radial''"
          "[\<lparr>shape = [1], data = [0]\<rparr>, \<lparr>shape = [1], data = [0]\<rparr>, \<lparr>shape = [1], data = [1]\<rparr>]"
          "\<lparr>shape = [1], data = [0]\<rparr>" "\<lparr>shape = [1], data = [0]\<rparr>" "\<lparr>shape = [1], data = [1]\<rparr>"
          "[1]" 0 0 0 1 zero_memory 1 1]
    by simp
qed

text \<open>
  C9 as stated (no error is raised, the element is NaN or infinite) fails for the
  computation point and the point mass both at longitude 0, latitude 0 and radius 1,
  where every floating-point operation is exact: for either field the call raises.
\<close>

theorem point_mass_gravity_collocated_raises:
  "point_mass_gravity zero_memory 1
     [\<lparr>shape = [1], data = [0]\<rparr>, \<lparr>shape = [1], data = [0]\<rparr>, \<lparr>shape = [1], data = [1]\<rparr>]
     [0, 0, 1] 1 ''potential'' = Inl ZeroDivisionError
   \<and> point_mass_gravity zero_memory 1
     [\<lparr>shape = [1], data = [0]\<rparr>, \<lparr>shape = [1], data = [0]\<rparr>, \<lparr>shape = [1], data = [1]\<rparr>]
     [0, 0, 1] 1 ''g_radial'' = Inl ZeroDivisionError"
  by (simp add: point_mass_gravity_def kernels_def np_broadcast_def broadcast_shapes_def
        ravel_def jit_point_mass_gravity_def getitem_def kernel_potential_def
        kernel_g_radial_def truediv_def radians_def Let_def)

text \<open>
  C5, as amended. In exact arithmetic, for a computation point with the longitude and
  latitude of the point mass and a radius above \<open>radius_p\<close>, the computed potential is
  \<open>G * mass / (radius - radius_p)\<close>: on the common radial line \<open>distance_sq\<close> is
  \<open>(radius - radius_p)\<^sup>2\<close>.
\<close>

theorem point_mass_gravity_collinear:
  assumes above: "radius_p < radius"
  shows "point_mass_gravity beyond G
           [\<lparr>shape = [1], data = [longitude_p]\<rparr>, \<lparr>shape = [1], data = [latitude_p]\<rparr>,
            \<lparr>shape = [1], data = [radius]\<rparr>]
           [longitude_p, latitude_p, radius_p] mass ''potential''
         = Inr \<lparr>shape = [1], data = [G * mass / (radius - radius_p)]\<rparr>"
proof -
  have kp: "kernels ''potential'' = Some kernel_potential"
    by (simp add: kernels_def)
  have "distance_sq (radians longitude_p) (cos (radians latitude_p))
          (sin (radians latitude_p)) radius
          (radians longitude_p) (cos (radians latitude_p)) (sin (radians latitude_p))
          radius_p (radius_p ^ 2) =
        radius ^ 2 + radius_p ^ 2 - 2 * radius * radius_p
          * ((sin (radians latitude_p))\<^sup>2 + (cos (radians latitude_p))\<^sup>2)"
    by (simp add: distance_sq_def cospsi_def power2_eq_square)
  also have "\<dots> = (radius - radius_p) ^ 2"
    by (simp add: power2_diff)
  finally have d: "distance_sq (radians longitude_p) (cos (radians latitude_p))
          (sin (radians latitude_p)) radius
          (radians longitude_p) (cos (radians latitude_p)) (sin (radians latitude_p))
          radius_p (radius_p ^ 2) = (radius - radius_p) ^ 2" .
  have kv: "\<forall>l<prod_list [1::nat]. kernel_call kernel_potential [longitude_p] [latitude_p]
              [radius] longitude_p latitude_p radius_p l = Inr (1 / (radius - radius_p))"
    using above by (simp add: kernel_call_def kernel_potential_eq d)
  have b: "np_broadcast [\<lparr>shape = [1], data = [longitude_p]\<rparr>,
       \<lparr>shape = [1], data = [latitude_p]\<rparr>, \<lparr>shape = [1], data = [radius]\<rparr>] = Inr [1]"
    by (simp add: np_broadcast_same_shape)
  show ?thesis
    using point_mass_gravity_ok [where v = "\<lambda>l. 1 / (radius - radius_p)"
        and lo = "\<lparr>shape = [1], data = [longitude_p]\<rparr>"
        and la = "\<lparr>shape = [1], data = [latitude_p]\<rparr>"
        and ra = "\<lparr>shape = [1], data = [radius]\<rparr>"
        and s = "[1]" and k = kernel_potential and field = "''potential''"
        and longitude_p = longitude_p and latitude_p = latitude_p and radius_p = radius_p
        and beyond = beyond and G = G and mass = mass, OF kp _ b]
      kv
    by simp
qed

theorem point_mass_gravity_collinear_witness:
  "(1::real) < 2
   \<and> point_mass_gravity zero_memory 2
         [\<lparr>shape = [1], data = [0]\<rparr>, \<lparr>shape = [1], data = [0]\<rparr>, \<lparr>shape = [1], data = [2]\<rparr>]
         [0, 0, 1] 3 ''potential'' = Inr \<lparr>shape = [1], data = [6]\<rparr>"
  using point_mass_gravity_collinear [of 1 2 zero_memory 2 0 0 3] by simp

text \<open>
  C5 as stated (the equality is exact in the \<open>float64\<close> computation) fails. For the
  radii 134217729 and 134217728 at longitude 0 and latitude 0 the kernel receives the
  arguments below (\<open>np.radians\<close>, \<open>np.cos\<close> and \<open>np.sin\<close> are exact at 0, and
  \<open>radius_p ** 2\<close> is \<open>2\<^sup>5\<^sup>4\<close>). In \<open>float64\<close> the square of 134217729 loses its last
  digit, \<open>distance_sq\<close> of line 132 cancels to 0 and the division raises; the loop of
  lines 93--115, run with the \<open>float64\<close> kernel on this computation point, stops with
  that error and leaves the buffer as it was, so no potential is computed. In exact
  arithmetic the kernel value is \<open>1 = 1 / (radius - radius_p)\<close>.
\<close>

theorem kernel_potential_f64_cancellation:
  "kernel_potential_f64 0 1 0 134217729 0 1 0 134217728 18014398509481984
     = Inl ZeroDivisionError
   \<and> jit_point_mass_gravity zero_memory [0] [0] [134217729] [0, 0, 134217728]
       kernel_potential_f64 [0] = (Some ZeroDivisionError, [0])
   \<and> kernel_potential 0 1 0 134217729 0 1 0 134217728 18014398509481984 = Inr 1"
  by (simp add: kernel_potential_f64_radii jit_point_mass_gravity_def getitem_def
        radians_def kernel_potential_def truediv_def Let_def)

text \<open>
  C10. The result of \<open>point_mass_gravity\<close> depends on \<open>coordinates\<close> only through
  its first three entries: two calls that agree on them and on the other arguments
  return the same result, whatever further entries one of them carries.
\<close>

theorem point_mass_gravity_first_three:
  assumes "take 3 coordinates = take 3 coordinates'"
  shows "point_mass_gravity beyond G coordinates point mass field =
         point_mass_gravity beyond G coordinates' point mass field"
  unfolding point_mass_gravity_def assms by (rule refl)

theorem point_mass_gravity_first_three_witness:
  "take 3 [\<lparr>shape = [1], data = [0]\<rparr>, \<lparr>shape = [1], data = [0]\<rparr>, \<lparr>shape = [1], data = [2]\<rparr>]
     = take 3 [\<lparr>shape = [1], data = [0]\<rparr>, \<lparr>shape = [1], data = [0]\<rparr>, \<lparr>shape = [1], data = [2]\<rparr>,
               \<lparr>shape = [2], data = [7, 8]\<rparr>]
   \<and> point_mass_gravity zero_memory 2
         [\<lparr>shape = [1], data = [0]\<rparr>, \<lparr>shape = [1], data = [0]\<rparr>, \<lparr>shape = [1], data = [2]\<rparr>]
         [0, 0, 1] 3 ''potential''
     = point_mass_gravity zero_memory 2
         [\<lparr>shape = [1], data = [0]\<rparr>, \<lparr>shape = [1], data = [0]\<rparr>, \<lparr>shape = [1], data = [2]\<rparr>,
          \<lparr>shape = [2], data = [7, 8]\<rparr>]
         [0, 0, 1] 3 ''potential''"
  using point_mass_gravity_first_three
    [of "[\<lparr>shape = [1], data = [0]\<rparr>, \<lparr>shape = [1], data = [0]\<rparr>, \<lparr>shape = [1], data = [2]\<rparr>]"
        "[\<lparr>shape = [1], data = [0]\<rparr>, \<lparr>shape = [1], data = [0]\<rparr>, \<lparr>shape = [1], data = [2]\<rparr>,
          \<lparr>shape = [2], data = [7, 8]\<rparr>]" zero_memory 2 "[0, 0, 1]" 3 "''potential''"]
  by simp

end
